theory Spec2Isabelle
  imports Complex_Main "HOL-Library.Sublist"
begin

section \<open>Python values\<close>

text \<open>
  The notebook \<^verbatim>\<open>data_aquisition.ipynb\<close> handles two kinds of values: strings (article
  titles, access types, URLs) and the objects that \<^verbatim>\<open>response.json()\<close> returns.

  A Python \<^verbatim>\<open>str\<close> is modelled by the bytes of its UTF-8 encoding (a \<open>string\<close>). Every
  string operation of the notebook agrees with this reading: emptiness, equality,
  concatenation, replacing the ASCII space, searching the ASCII word \<^verbatim>\<open>items\<close>, and
  \<^verbatim>\<open>urllib.parse.quote\<close>, which encodes the text to UTF-8 before it escapes bytes.

  A parsed JSON document is \<^verbatim>\<open>None\<close>, a \<^verbatim>\<open>bool\<close>, an \<^verbatim>\<open>int\<close>, a \<^verbatim>\<open>str\<close>, a
  \<^verbatim>\<open>list\<close> or a \<^verbatim>\<open>dict\<close> with string keys. A \<open>JObj\<close> lists the dict's entries in
  insertion order (its keys are distinct, as in a dict). JSON numbers with a fraction or
  an exponent parse to floats; they are left out of the model.
\<close>

datatype json =
    JNull
  | JBool bool
  | JInt int
  | JStr string
  | JArr "json list"
  | JObj "(string \<times> json) list"

text \<open>The exceptions that can leave the notebook's code.\<close>

datatype py_error =
    Exception string
  | KeyError string
  | TypeError
  | ValueError

text \<open>Truth value testing, as in \<^verbatim>\<open>if x\<close> and \<^verbatim>\<open>x and y\<close>.\<close>

fun truthy :: "json \<Rightarrow> bool" where
  "truthy JNull = False"
| "truthy (JBool b) = b"
| "truthy (JInt n) = (n \<noteq> 0)"
| "truthy (JStr s) = (s \<noteq> [])"
| "truthy (JArr xs) = (xs \<noteq> [])"
| "truthy (JObj kvs) = (kvs \<noteq> [])"

text \<open>
  \<^verbatim>\<open>a == b\<close>. A bool compares as the integer 0 or 1, lists compare element by element,
  dicts compare as sets of entries, and values of different kinds are unequal.
\<close>

fun py_eq :: "json \<Rightarrow> json \<Rightarrow> bool" where
  "py_eq JNull JNull = True"
| "py_eq (JBool a) (JBool b) = (a = b)"
| "py_eq (JBool a) (JInt b) = ((if a then 1 else 0) = b)"
| "py_eq (JInt a) (JBool b) = (a = (if b then 1 else 0))"
| "py_eq (JInt a) (JInt b) = (a = b)"
| "py_eq (JStr a) (JStr b) = (a = b)"
| "py_eq (JArr xs) (JArr ys) = list_all2 py_eq xs ys"
| "py_eq (JObj a) (JObj b) =
     (length a = length b \<and>
      list_all (\<lambda>(k, v). case map_of b k of None \<Rightarrow> False | Some w \<Rightarrow> py_eq v w) a)"
| "py_eq _ _ = False"

text \<open>\<^verbatim>\<open>a + b\<close>: integer addition (a bool counts as 0 or 1), or concatenation.\<close>

fun py_add :: "json \<Rightarrow> json \<Rightarrow> py_error + json" where
  "py_add (JInt a) (JInt b) = Inr (JInt (a + b))"
| "py_add (JInt a) (JBool b) = Inr (JInt (a + (if b then 1 else 0)))"
| "py_add (JBool a) (JInt b) = Inr (JInt ((if a then 1 else 0) + b))"
| "py_add (JBool a) (JBool b) = Inr (JInt ((if a then 1 else 0) + (if b then 1 else 0)))"
| "py_add (JStr a) (JStr b) = Inr (JStr (a @ b))"
| "py_add (JArr a) (JArr b) = Inr (JArr (a @ b))"
| "py_add _ _ = Inl TypeError"

text \<open>\<^verbatim>\<open>needle in haystack\<close> on two strings: a substring test.\<close>

fun contains_substr :: "string \<Rightarrow> string \<Rightarrow> bool" where
  "contains_substr needle [] = (needle = [])"
| "contains_substr needle (c # cs) = (prefix needle (c # cs) \<or> contains_substr needle cs)"

text \<open>
  \<^verbatim>\<open>key in x\<close> for a string \<open>key\<close>: a key of a dict, an element of a list, a substring
  of a string; the other values are not containers.
\<close>

fun py_contains :: "string \<Rightarrow> json \<Rightarrow> py_error + bool" where
  "py_contains k (JObj kvs) = Inr (k \<in> set (map fst kvs))"
| "py_contains k (JArr xs) = Inr (list_ex (py_eq (JStr k)) xs)"
| "py_contains k (JStr s) = Inr (contains_substr k s)"
| "py_contains k _ = Inl TypeError"

text \<open>\<^verbatim>\<open>x[key]\<close> for a string \<open>key\<close>: only a dict can be subscripted by a string.\<close>

fun py_getitem :: "json \<Rightarrow> string \<Rightarrow> py_error + json" where
  "py_getitem (JObj kvs) k = (case map_of kvs k of None \<Rightarrow> Inl (KeyError k) | Some v \<Rightarrow> Inr v)"
| "py_getitem _ k = Inl TypeError"

text \<open>
  The elements a \<^verbatim>\<open>for\<close> loop or \<^verbatim>\<open>zip\<close> draws from a value: the elements of a list,
  the keys of a dict, the characters of a string (each a lead byte of the UTF-8 text with
  its continuation bytes).
\<close>

definition is_continuation :: "char \<Rightarrow> bool" where
  "is_continuation b = (128 \<le> (of_char b :: nat) \<and> (of_char b :: nat) < 192)"

function utf8_chars :: "string \<Rightarrow> string list" where
  "utf8_chars [] = []"
| "utf8_chars (c # cs) =
     (c # takeWhile is_continuation cs) # utf8_chars (dropWhile is_continuation cs)"
  by pat_completeness auto
termination
  by (relation "measure length") (auto simp: less_Suc_eq_le length_dropWhile_le)

fun py_iter :: "json \<Rightarrow> py_error + json list" where
  "py_iter (JArr xs) = Inr xs"
| "py_iter (JObj kvs) = Inr (map (\<lambda>kv. JStr (fst kv)) kvs)"
| "py_iter (JStr s) = Inr (map JStr (utf8_chars s))"
| "py_iter _ = Inl TypeError"

section \<open>Building the request\<close>

text \<open>
  \<^verbatim>\<open>urllib.parse.quote(string, safe)\<close>: every byte of the UTF-8 text that is not an
  unreserved character or a character of \<open>safe\<close> becomes \<^verbatim>\<open>%XX\<close> with upper-case
  hexadecimal digits. The default value of \<open>safe\<close> is \<^verbatim>\<open>'/'\<close>.
\<close>

definition hex_digit :: "nat \<Rightarrow> char" where
  "hex_digit n = ''0123456789ABCDEF'' ! n"

definition percent_encode :: "char \<Rightarrow> string" where
  "percent_encode c = [CHR ''%'', hex_digit (of_char c div 16), hex_digit (of_char c mod 16)]"

definition ALWAYS_SAFE :: string where
  "ALWAYS_SAFE = ''ABCDEFGHIJKLMNOPQRSTUVWXYZabcdefghijklmnopqrstuvwxyz0123456789_.-~''"

definition quote :: "string \<Rightarrow> string \<Rightarrow> string" where
  "quote string safe =
     concat (map (\<lambda>c. if c \<in> set (ALWAYS_SAFE @ safe) then [c] else percent_encode c) string)"

text \<open>\<^verbatim>\<open>s.replace(old, new)\<close> for one-character \<open>old\<close> and \<open>new\<close>.\<close>

definition replace :: "string \<Rightarrow> char \<Rightarrow> char \<Rightarrow> string" where
  "replace s old new = map (\<lambda>c. if c = old then new else c) s"

text \<open>
  Line 166 of the notebook:
  \<^verbatim>\<open>urllib.parse.quote(request_template['article'].replace(' ','_'))\<close>.
\<close>

definition article_title_encoded :: "string \<Rightarrow> string" where
  "article_title_encoded article = quote (replace article (CHR '' '') (CHR ''_'')) ''/''"

text \<open>
  \<^verbatim>\<open>fmt.format(**kw)\<close> for a format string made of literal text and plain named fields
  \<^verbatim>\<open>{name}\<close>, and a dict \<open>kw\<close> of strings: a field whose name is not a key raises
  \<^verbatim>\<open>KeyError\<close>, an unmatched brace raises \<^verbatim>\<open>ValueError\<close>. (Doubled braces, conversions
  and format specifications do not occur in the notebook's format string.)
\<close>

function format_fields :: "string \<Rightarrow> (string \<rightharpoonup> string) \<Rightarrow> py_error + string" where
  "format_fields [] kw = Inr []"
| "format_fields (c # cs) kw =
     (if c = CHR ''{'' then
        (case dropWhile (\<lambda>d. d \<noteq> CHR ''}'') cs of
           [] \<Rightarrow> Inl ValueError
         | _ # rest \<Rightarrow>
             (case kw (takeWhile (\<lambda>d. d \<noteq> CHR ''}'') cs) of
                None \<Rightarrow> Inl (KeyError (takeWhile (\<lambda>d. d \<noteq> CHR ''}'') cs))
              | Some v \<Rightarrow> map_sum id ((@) v) (format_fields rest kw)))
      else if c = CHR ''}'' then Inl ValueError
      else map_sum id ((#) c) (format_fields cs kw))"
  by pat_completeness auto
termination
proof (relation "measure (\<lambda>(s, kw). length s)")
  fix c :: char and cs rest :: string and d :: char and kw :: "string \<rightharpoonup> string" and v :: string
  assume "dropWhile (\<lambda>d. d \<noteq> CHR ''}'') cs = d # rest"
  then have "length rest < Suc (length cs)"
    using length_dropWhile_le [of "\<lambda>d. d \<noteq> CHR ''}''" cs] by simp
  then show "((rest, kw), c # cs, kw) \<in> measure (\<lambda>(s, kw). length s)"
    by simp
qed simp_all

subsection \<open>Constants\<close>

definition API_REQUEST_PAGEVIEWS_ENDPOINT :: string where
  "API_REQUEST_PAGEVIEWS_ENDPOINT = ''https://wikimedia.org/api/rest_v1/metrics/pageviews/''"

definition API_REQUEST_PER_ARTICLE_PARAMS :: string where
  "API_REQUEST_PER_ARTICLE_PARAMS =
     ''per-article/{project}/{access}/{agent}/{article}/{granularity}/{start}/{end}''"

text \<open>
  The two delays are floating-point numbers in the notebook; the model computes with the
  exact decimal values, whose difference from the floats is below any duration a clock
  resolves.
\<close>

definition API_LATENCY_ASSUMED :: real where
  "API_LATENCY_ASSUMED = 2 / 1000"

definition API_THROTTLE_WAIT :: real where
  "API_THROTTLE_WAIT = 1 / 100 - API_LATENCY_ASSUMED"

type_synonym headers = "(string \<times> string) list"

definition REQUEST_HEADERS :: headers where
  "REQUEST_HEADERS =
     [(''User-Agent'', ''<trips@uw.edu>, University of Washington, MSDS DATA 512 - AUTUMN 2024'')]"

definition ARTICLE_PAGEVIEWS_PARAMS_TEMPLATE :: "string \<rightharpoonup> string" where
  "ARTICLE_PAGEVIEWS_PARAMS_TEMPLATE =
     [''project'' \<mapsto> ''en.wikipedia.org'',
      ''access'' \<mapsto> ''desktop'',
      ''agent'' \<mapsto> ''user'',
      ''article'' \<mapsto> '''',
      ''granularity'' \<mapsto> ''monthly'',
      ''start'' \<mapsto> ''2015070100'',
      ''end'' \<mapsto> ''2024093000'']"

section \<open>The world outside the notebook\<close>

text \<open>
  What the code does to the outside is recorded as a trace of events: entering
  \<^verbatim>\<open>request_pageviews_per_article\<close> (with its title and access type arguments),
  \<^verbatim>\<open>time.sleep\<close>, \<^verbatim>\<open>requests.get\<close> and \<^verbatim>\<open>print\<close>.
\<close>

datatype event =
    Call "string option" string
  | Sleep real
  | Get string headers
  | Print string

text \<open>
  What the outside does to the code is a parameter: whether \<^verbatim>\<open>time.sleep\<close> raises,
  and what \<^verbatim>\<open>requests.get\<close> gives. Both may depend on everything that happened before
  (the trace). A raised exception is given by its message \<^verbatim>\<open>str(e)\<close>, the text that
  \<^verbatim>\<open>print(e)\<close> writes; it is an instance of \<^verbatim>\<open>Exception\<close>, which is what the three
  library calls raise. A response is given by what its \<^verbatim>\<open>json()\<close> method does: raise, or
  return the parsed body.
\<close>

type_synonym response = "string + json"

record env =
  time_sleep :: "event list \<Rightarrow> real \<Rightarrow> string option"
  requests_get :: "event list \<Rightarrow> string \<Rightarrow> headers \<Rightarrow> string + response"

section \<open>The request function\<close>

text \<open>
  \<^verbatim>\<open>request_pageviews_per_article\<close>, lines 148 to 184. The dict \<open>request_template\<close> is
  mutated in place, so the function returns it with its result and the extended trace.
  \<open>Inl\<close> is an exception that leaves the function, \<open>Inr\<close> the returned value
  (\<open>JNull\<close> is \<^verbatim>\<open>None\<close>). The \<^verbatim>\<open>try\<close> statement of lines 173 to 183 is
  \<open>try_request\<close>: it always yields a value, \<open>JNull\<close> after an exception.
\<close>

definition try_request :: "env \<Rightarrow> string \<Rightarrow> headers \<Rightarrow> event list \<Rightarrow> json \<times> event list" where
  "try_request world request_url hdrs tr0 =
     (let tr1 = (if API_THROTTLE_WAIT > 0 then tr0 @ [Sleep API_THROTTLE_WAIT] else tr0)
      in case (if API_THROTTLE_WAIT > 0 then time_sleep world tr0 API_THROTTLE_WAIT else None) of
           Some msg \<Rightarrow> (JNull, tr1 @ [Print msg])
         | None \<Rightarrow>
             (case requests_get world tr1 request_url hdrs of
                Inl msg \<Rightarrow> (JNull, tr1 @ [Get request_url hdrs, Print msg])
              | Inr response \<Rightarrow>
                  (case response of
                     Inl msg \<Rightarrow> (JNull, tr1 @ [Get request_url hdrs, Print msg])
                   | Inr json_response \<Rightarrow> (json_response, tr1 @ [Get request_url hdrs]))))"

definition request_pageviews_per_article ::
  "env \<Rightarrow> string option \<Rightarrow> string \<Rightarrow> string \<Rightarrow> string \<Rightarrow> (string \<rightharpoonup> string) \<Rightarrow> headers \<Rightarrow>
   event list \<Rightarrow> (py_error + json) \<times> (string \<rightharpoonup> string) \<times> event list" where
  "request_pageviews_per_article world title access_type endpoint_url endpoint_params
       request_template hdrs tr =
     (let tr0 = tr @ [Call title access_type];
          t1 = (case title of
                  None \<Rightarrow> request_template
                | Some a \<Rightarrow> (if a \<noteq> [] then request_template(''article'' \<mapsto> a)
                            else request_template))
      in case t1 ''article'' of
           None \<Rightarrow> (Inl (KeyError ''article''), t1, tr0)
         | Some a \<Rightarrow>
             (if a = [] then
                (Inl (Exception ''Must supply an article title to make a pageviews request.''),
                 t1, tr0)
              else
                (let t2 = t1(''access'' \<mapsto> access_type);
                     t3 = t2(''article'' \<mapsto> article_title_encoded a)
                 in case format_fields endpoint_params t3 of
                      Inl e \<Rightarrow> (Inl e, t3, tr0)
                    | Inr params \<Rightarrow>
                        (case try_request world (endpoint_url @ params) hdrs tr0 of
                           (json_response, tr2) \<Rightarrow> (Inr json_response, t3, tr2)))))"

section \<open>The data acquisition loop\<close>

text \<open>
  The module-level state the loop works on: the shared template dict (the default value
  of the parameter \<open>request_template\<close>), the trace, and the three output lists.
\<close>

record pageview =
  article_title :: string
  timestamp :: json
  views :: json

record state =
  template :: "string \<rightharpoonup> string"
  trace :: "event list"
  desktop_dict :: "pageview list"
  mobile_dict :: "pageview list"
  cumulative_dict :: "pageview list"

definition initial_state :: state where
  "initial_state =
     \<lparr>template = ARTICLE_PAGEVIEWS_PARAMS_TEMPLATE, trace = [],
      desktop_dict = [], mobile_dict = [], cumulative_dict = []\<rparr>"

text \<open>
  A call that leaves the endpoint, the parameter string, the template and the headers at
  their defaults, as every call of the notebook does.
\<close>

definition fetch :: "env \<Rightarrow> string option \<Rightarrow> string \<Rightarrow> state \<Rightarrow> (py_error + json) \<times> state" where
  "fetch world title access_type s =
     (case request_pageviews_per_article world title access_type
             API_REQUEST_PAGEVIEWS_ENDPOINT API_REQUEST_PER_ARTICLE_PARAMS (template s)
             REQUEST_HEADERS (trace s) of
        (r, t, tr) \<Rightarrow> (r, s\<lparr>template := t, trace := tr\<rparr>))"

text \<open>The test \<^verbatim>\<open>x and 'items' in x\<close> of lines 269, 286 and 303.\<close>

definition has_items :: "json \<Rightarrow> py_error + bool" where
  "has_items x = (if truthy x then py_contains ''items'' x else Inr False)"



text \<open>
  The body of the \<^verbatim>\<open>for\<close> loop of line 287: a record for a pair of items with equal
  timestamps, nothing for a pair with different ones.
\<close>

definition mobile_month_data :: "string \<Rightarrow> json \<Rightarrow> json \<Rightarrow> py_error + pageview option" where
  "mobile_month_data article web_record app_record =
     (case py_getitem web_record ''timestamp'' of
        Inl e \<Rightarrow> Inl e
      | Inr tw \<Rightarrow>
          (case py_getitem app_record ''timestamp'' of
             Inl e \<Rightarrow> Inl e
           | Inr ta \<Rightarrow>
               (if py_eq tw ta then
                  (case py_getitem web_record ''views'' of
                     Inl e \<Rightarrow> Inl e
                   | Inr vw \<Rightarrow>
                       (case py_getitem app_record ''views'' of
                          Inl e \<Rightarrow> Inl e
                        | Inr va \<Rightarrow>
                            (case py_add vw va of
                               Inl e \<Rightarrow> Inl e
                             | Inr v \<Rightarrow>
                                 Inr (Some \<lparr>article_title = article, timestamp = tw,
                                            views = v\<rparr>))))
                else Inr None)))"

fun merge_mobile :: "string \<Rightarrow> (json \<times> json) list \<Rightarrow> pageview list \<Rightarrow> py_error option \<times> pageview list" where
  "merge_mobile article [] out = (None, out)"
| "merge_mobile article ((web_record, app_record) # rest) out =
     (case mobile_month_data article web_record app_record of
        Inl e \<Rightarrow> (Some e, out)
      | Inr None \<Rightarrow> merge_mobile article rest out
      | Inr (Some d) \<Rightarrow> merge_mobile article rest (out @ [d]))"


text \<open>
  Lines 282 to 297. The test of line 286 looks at the mobile-app response only when the
  mobile-web response has items; \<^verbatim>\<open>zip\<close> pairs the two item lists by position and stops
  at the end of the shorter one.
\<close>

definition mobile_part :: "env \<Rightarrow> string \<Rightarrow> state \<Rightarrow> py_error option \<times> state" where
  "mobile_part world article s =
     (case fetch world (Some article) ''mobile-web'' s of
        (Inl e, s1) \<Rightarrow> (Some e, s1)
      | (Inr mobile_web_pageviews, s1) \<Rightarrow>
          (case fetch world (Some article) ''mobile-app'' s1 of
             (Inl e, s2) \<Rightarrow> (Some e, s2)
           | (Inr mobile_app_pageviews, s2) \<Rightarrow>
               (case (case has_items mobile_web_pageviews of
                        Inl e \<Rightarrow> Inl e
                      | Inr False \<Rightarrow> Inr False
                      | Inr True \<Rightarrow> has_items mobile_app_pageviews) of
                  Inl e \<Rightarrow> (Some e, s2)
                | Inr False \<Rightarrow>
                    (None, s2\<lparr>trace := trace s2 @
                       [Print (''No mobile-web or mobile-app data found for '' @ article)]\<rparr>)
                | Inr True \<Rightarrow>
                    (case py_getitem mobile_web_pageviews ''items'' of
                       Inl e \<Rightarrow> (Some e, s2)
                     | Inr web_items \<Rightarrow>
                         (case py_getitem mobile_app_pageviews ''items'' of
                            Inl e \<Rightarrow> (Some e, s2)
                          | Inr app_items \<Rightarrow>
                              (case py_iter web_items of
                                 Inl e \<Rightarrow> (Some e, s2)
                               | Inr web_records \<Rightarrow>
                                   (case py_iter app_items of
                                      Inl e \<Rightarrow> (Some e, s2)
                                    | Inr app_records \<Rightarrow>
                                        (case merge_mobile article (zip web_records app_records)
                                                (mobile_dict s2) of
                                           (err, out) \<Rightarrow> (err, s2\<lparr>mobile_dict := out\<rparr>)))))))))"





section \<open>Vocabulary of the properties\<close>



text \<open>
  A monthly record as the API delivers it: a dict whose \<^verbatim>\<open>timestamp\<close> is a string and
  whose \<^verbatim>\<open>views\<close> is an integer.
\<close>

fun is_month_record :: "json \<Rightarrow> bool" where
  "is_month_record (JObj kvs) =
     (case map_of kvs ''timestamp'' of
        Some (JStr ts) \<Rightarrow> (case map_of kvs ''views'' of Some (JInt v) \<Rightarrow> True | _ \<Rightarrow> False)
      | _ \<Rightarrow> False)"
| "is_month_record _ = False"

text \<open>The fields of an item, for stating what the output records hold.\<close>

definition item_field :: "json \<Rightarrow> string \<Rightarrow> json" where
  "item_field m k = (case py_getitem m k of Inr v \<Rightarrow> v | Inl e \<Rightarrow> JNull)"

definition int_field :: "json \<Rightarrow> string \<Rightarrow> int" where
  "int_field m k = (case py_getitem m k of Inr (JInt v) \<Rightarrow> v | _ \<Rightarrow> 0)"



abbreviation same_month :: "json \<times> json \<Rightarrow> bool" where
  "same_month \<equiv> \<lambda>(w, p). item_field w ''timestamp'' = item_field p ''timestamp''"

abbreviation merged_record_of :: "string \<Rightarrow> json \<times> json \<Rightarrow> pageview" where
  "merged_record_of a \<equiv> \<lambda>(w, p).
     \<lparr>article_title = a, timestamp = item_field w ''timestamp'',
      views = JInt (int_field w ''views'' + int_field p ''views'')\<rparr>"






section \<open>Example worlds\<close>

text \<open>
  Concrete worlds on which the theorems below are run: a network that cannot be reached
  (as in the notebook's recorded output), a sleep that raises, a body that is not JSON,
  and a stub of the API with fixed pages for two of the notebook's example titles: all
  four pages of Bison, with the same two months each, and the two mobile pages of
  Northern flicker, where the mobile-app page lacks the second of four months. The stub
  answers any other URL with the API's error document, which has no items.
\<close>

definition world_down :: env where
  "world_down =
     \<lparr>time_sleep = (\<lambda>tr d. None),
      requests_get = (\<lambda>tr url hdrs. Inl ''Connection aborted.'')\<rparr>"



definition month_item :: "string \<Rightarrow> string \<Rightarrow> int \<Rightarrow> json" where
  "month_item access ts v =
     JObj [(''project'', JStr ''en.wikipedia''), (''granularity'', JStr ''monthly''),
           (''timestamp'', JStr ts), (''access'', JStr access), (''agent'', JStr ''user''),
           (''views'', JInt v)]"

definition stub_url :: "string \<Rightarrow> string \<Rightarrow> string" where
  "stub_url access article =
     ''https://wikimedia.org/api/rest_v1/metrics/pageviews/per-article/en.wikipedia.org/'' @
     access @ ''/user/'' @ article @ ''/monthly/2015070100/2024093000''"

definition bison_desktop :: "json list" where
  "bison_desktop =
     [month_item ''desktop'' ''2015070100'' 100, month_item ''desktop'' ''2015080100'' 110]"

definition bison_web :: "json list" where
  "bison_web =
     [month_item ''mobile-web'' ''2015070100'' 40, month_item ''mobile-web'' ''2015080100'' 50]"

definition bison_app :: "json list" where
  "bison_app =
     [month_item ''mobile-app'' ''2015070100'' 2, month_item ''mobile-app'' ''2015080100'' 3]"

definition bison_all :: "json list" where
  "bison_all =
     [month_item ''all-access'' ''2015070100'' 142,
      month_item ''all-access'' ''2015080100'' 163]"

definition flicker_web :: "json list" where
  "flicker_web =
     [month_item ''mobile-web'' ''2015070100'' 7, month_item ''mobile-web'' ''2015080100'' 8,
      month_item ''mobile-web'' ''2015090100'' 9, month_item ''mobile-web'' ''2015100100'' 10]"

definition flicker_app :: "json list" where
  "flicker_app =
     [month_item ''mobile-app'' ''2015070100'' 1, month_item ''mobile-app'' ''2015090100'' 3,
      month_item ''mobile-app'' ''2015100100'' 4]"

definition stub_pages :: "(string \<times> json) list" where
  "stub_pages =
     [(stub_url ''desktop'' ''Bison'', JObj [(''items'', JArr bison_desktop)]),
      (stub_url ''mobile-web'' ''Bison'', JObj [(''items'', JArr bison_web)]),
      (stub_url ''mobile-app'' ''Bison'', JObj [(''items'', JArr bison_app)]),
      (stub_url ''all-access'' ''Bison'', JObj [(''items'', JArr bison_all)]),
      (stub_url ''mobile-web'' ''Northern_flicker'', JObj [(''items'', JArr flicker_web)]),
      (stub_url ''mobile-app'' ''Northern_flicker'', JObj [(''items'', JArr flicker_app)])]"

definition not_found :: json where
  "not_found =
     JObj [(''type'', JStr ''https://mediawiki.org/wiki/HyperSwitch/errors/not_found''),
           (''title'', JStr ''Not found.''), (''method'', JStr ''get'')]"

definition stub_api :: env where
  "stub_api =
     \<lparr>time_sleep = (\<lambda>tr d. None),
      requests_get = (\<lambda>tr url hdrs.
         case map_of stub_pages url of
           Some page \<Rightarrow> Inr (Inr page)
         | None \<Rightarrow> Inr (Inr not_found))\<rparr>"

section \<open>Facts about the request function\<close>

lemma API_THROTTLE_WAIT_pos: "0 < API_THROTTLE_WAIT"
  by (simp add: API_THROTTLE_WAIT_def API_LATENCY_ASSUMED_def)

lemmas encode_defs = article_title_encoded_def quote_def replace_def ALWAYS_SAFE_def
  percent_encode_def hex_digit_def

lemmas request_defs = fetch_def request_pageviews_per_article_def try_request_def
  ARTICLE_PAGEVIEWS_PARAMS_TEMPLATE_def API_REQUEST_PER_ARTICLE_PARAMS_def
  API_REQUEST_PAGEVIEWS_ENDPOINT_def API_THROTTLE_WAIT_pos

lemma hex_digit_not_space: "n < 16 \<Longrightarrow> hex_digit n \<noteq> CHR '' ''"
proof
  assume n: "n < 16" and eq: "hex_digit n = CHR '' ''"
  from n have "''0123456789ABCDEF'' ! n \<in> set ''0123456789ABCDEF''"
    by (intro nth_mem) simp
  with eq show False
    by (simp add: hex_digit_def)
qed

lemma percent_encode_no_space: "CHR '' '' \<notin> set (percent_encode c)"
proof -
  have "(of_char c :: nat) mod 256 = of_char c"
    by (rule of_char_mod_256)
  then have "(of_char c :: nat) < 256"
    by (metis mod_less_divisor zero_less_numeral)
  then have "(of_char c :: nat) div 16 < 16" and "(of_char c :: nat) mod 16 < 16"
    by arith+
  then have "hex_digit (of_char c div 16) \<noteq> CHR '' ''"
    and "hex_digit (of_char c mod 16) \<noteq> CHR '' ''"
    by (simp_all add: hex_digit_not_space)
  then show ?thesis
    by (auto simp: percent_encode_def)
qed

text \<open>
  The title's spaces never reach the URL: each becomes an underscore.
\<close>

lemma article_title_encoded_no_space: "CHR '' '' \<notin> set (article_title_encoded a)"
  using percent_encode_no_space
  by (auto simp: article_title_encoded_def quote_def replace_def split: if_splits)

lemma article_title_encoded_underscore:
  "article_title_encoded (xs @ '' '' @ ys) =
     article_title_encoded xs @ ''_'' @ article_title_encoded ys"
  by (simp add: encode_defs)

text \<open>A slash is in the default \<open>safe\<close> set of \<open>quote\<close>, so it is copied.\<close>

lemma article_title_encoded_slash:
  "article_title_encoded (xs @ ''/'' @ ys) =
     article_title_encoded xs @ ''/'' @ article_title_encoded ys"
  by (simp add: encode_defs)


text \<open>
  The URL that the default parameter string gives, and the two ways past the title check:
  with a title of the call's own, and with the title the template still holds.
\<close>

lemma format_default_params:
  assumes "T ''project'' = Some p" "T ''access'' = Some ac" "T ''agent'' = Some ag"
    "T ''article'' = Some ar" "T ''granularity'' = Some g" "T ''start'' = Some st" "T ''end'' = Some en"
  shows "format_fields API_REQUEST_PER_ARTICLE_PARAMS T =
    Inr (''per-article/'' @ p @ ''/'' @ ac @ ''/'' @ ag @ ''/'' @ ar @ ''/'' @ g @ ''/'' @ st @ ''/'' @ en)"
  using assms by (simp add: API_REQUEST_PER_ARTICLE_PARAMS_def)

lemma request_with_title:
  assumes "a \<noteq> []"
    and "T ''project'' = Some p" "T ''agent'' = Some ag"
    "T ''granularity'' = Some g" "T ''start'' = Some st" "T ''end'' = Some en"
  shows "request_pageviews_per_article world (Some a) acc url API_REQUEST_PER_ARTICLE_PARAMS T hdrs tr =
     (Inr (fst (try_request world
            (url @ ''per-article/'' @ p @ ''/'' @ acc @ ''/'' @ ag @ ''/'' @ article_title_encoded a @
              ''/'' @ g @ ''/'' @ st @ ''/'' @ en) hdrs (tr @ [Call (Some a) acc]))),
      T(''access'' \<mapsto> acc, ''article'' \<mapsto> article_title_encoded a),
      snd (try_request world
            (url @ ''per-article/'' @ p @ ''/'' @ acc @ ''/'' @ ag @ ''/'' @ article_title_encoded a @
              ''/'' @ g @ ''/'' @ st @ ''/'' @ en) hdrs (tr @ [Call (Some a) acc])))"
proof -
  let ?T3 = "T(''article'' \<mapsto> a, ''access'' \<mapsto> acc, ''article'' \<mapsto> article_title_encoded a)"
  have fmt: "format_fields API_REQUEST_PER_ARTICLE_PARAMS ?T3 =
    Inr (''per-article/'' @ p @ ''/'' @ acc @ ''/'' @ ag @ ''/'' @ article_title_encoded a @
              ''/'' @ g @ ''/'' @ st @ ''/'' @ en)"
    by (rule format_default_params) (simp_all add: assms)
  have T3: "?T3 = T(''access'' \<mapsto> acc, ''article'' \<mapsto> article_title_encoded a)"
    by (rule ext) simp
  show ?thesis
    using assms(1) fmt
    by (simp add: request_pageviews_per_article_def Let_def T3 split: prod.splits)
qed




lemma try_request_trace:
  "(\<exists>msg. time_sleep world tr0 API_THROTTLE_WAIT = Some msg \<and>
      snd (try_request world u hdrs tr0) = tr0 @ [Sleep API_THROTTLE_WAIT, Print msg]) \<or>
   (time_sleep world tr0 API_THROTTLE_WAIT = None \<and>
      snd (try_request world u hdrs tr0) = tr0 @ [Sleep API_THROTTLE_WAIT, Get u hdrs]) \<or>
   (\<exists>msg. time_sleep world tr0 API_THROTTLE_WAIT = None \<and>
      snd (try_request world u hdrs tr0) = tr0 @ [Sleep API_THROTTLE_WAIT, Get u hdrs, Print msg])"
  by (auto simp: try_request_def Let_def API_THROTTLE_WAIT_pos split: option.splits sum.splits)

lemma request_trace:
  assumes "request_pageviews_per_article world title acc url params T hdrs tr = (Inr j, T', tr')"
  shows "\<exists>u. tr' = snd (try_request world u hdrs (tr @ [Call title acc]))"
  using assms
  apply (auto simp: request_pageviews_per_article_def Let_def
      split: option.splits if_splits sum.splits prod.splits)
    apply (metis snd_conv)+
  done

text \<open>
  A call changes the template and the trace only, and of the template only two fields.
\<close>

lemma fetch_with_title:
  assumes "a \<noteq> []"
    and "template s ''project'' = Some p" "template s ''agent'' = Some ag"
    "template s ''granularity'' = Some g" "template s ''start'' = Some st"
    "template s ''end'' = Some en"
    and "u = API_REQUEST_PAGEVIEWS_ENDPOINT @ ''per-article/'' @ p @ ''/'' @ acc @ ''/'' @ ag @
               ''/'' @ article_title_encoded a @ ''/'' @ g @ ''/'' @ st @ ''/'' @ en"
  shows "fetch world (Some a) acc s =
     (Inr (fst (try_request world u REQUEST_HEADERS (trace s @ [Call (Some a) acc]))),
      s\<lparr>template := (template s)(''access'' \<mapsto> acc, ''article'' \<mapsto> article_title_encoded a),
        trace := snd (try_request world u REQUEST_HEADERS (trace s @ [Call (Some a) acc]))\<rparr>)"
  unfolding fetch_def assms(7)
  by (simp add: request_with_title [OF assms(1-6)])

lemma fetch_frame:
  "desktop_dict (snd (fetch world t acc s)) = desktop_dict s"
  "mobile_dict (snd (fetch world t acc s)) = mobile_dict s"
  "cumulative_dict (snd (fetch world t acc s)) = cumulative_dict s"
  by (simp_all add: fetch_def split: prod.splits)

lemma fetch_keeps_keys:
  assumes "k \<noteq> ''access''" and "k \<noteq> ''article''"
  shows "template (snd (fetch world t acc s)) k = template s k"
  using assms
  by (simp add: fetch_def request_pageviews_per_article_def Let_def split_beta
      split: option.splits sum.splits)

section \<open>Runs in the example worlds\<close>

lemmas fixture_defs = bison_desktop_def bison_web_def bison_app_def bison_all_def
  flicker_web_def flicker_app_def month_item_def

lemma fixtures_are_month_records:
  "\<forall>m\<in>set bison_desktop. is_month_record m"
  "\<forall>m\<in>set bison_web. is_month_record m"
  "\<forall>m\<in>set bison_app. is_month_record m"
  "\<forall>m\<in>set flicker_web. is_month_record m"
  "\<forall>m\<in>set flicker_app. is_month_record m"
  by (simp_all add: fixture_defs)

lemma template_keys:
  "ARTICLE_PAGEVIEWS_PARAMS_TEMPLATE ''project'' = Some ''en.wikipedia.org''"
  "ARTICLE_PAGEVIEWS_PARAMS_TEMPLATE ''agent'' = Some ''user''"
  "ARTICLE_PAGEVIEWS_PARAMS_TEMPLATE ''granularity'' = Some ''monthly''"
  "ARTICLE_PAGEVIEWS_PARAMS_TEMPLATE ''start'' = Some ''2015070100''"
  "ARTICLE_PAGEVIEWS_PARAMS_TEMPLATE ''end'' = Some ''2024093000''"
  by (simp_all add: ARTICLE_PAGEVIEWS_PARAMS_TEMPLATE_def)

lemma initial_fields:
  "trace initial_state = []" "desktop_dict initial_state = []"
  "mobile_dict initial_state = []" "cumulative_dict initial_state = []"
  by (simp_all add: initial_state_def)

lemma initial_keys:
  "template initial_state ''project'' = Some ''en.wikipedia.org''"
  "template initial_state ''agent'' = Some ''user''"
  "template initial_state ''granularity'' = Some ''monthly''"
  "template initial_state ''start'' = Some ''2015070100''"
  "template initial_state ''end'' = Some ''2024093000''"
  by (simp_all add: initial_state_def template_keys)


lemma fetch_default:
  assumes "a \<noteq> []"
    and "template s ''project'' = Some ''en.wikipedia.org''" "template s ''agent'' = Some ''user''"
    "template s ''granularity'' = Some ''monthly''" "template s ''start'' = Some ''2015070100''"
    "template s ''end'' = Some ''2024093000''"
  shows "fetch world (Some a) acc s =
     (Inr (fst (try_request world (stub_url acc (article_title_encoded a)) REQUEST_HEADERS
                 (trace s @ [Call (Some a) acc]))),
      s\<lparr>template := (template s)(''access'' \<mapsto> acc, ''article'' \<mapsto> article_title_encoded a),
        trace := snd (try_request world (stub_url acc (article_title_encoded a)) REQUEST_HEADERS
                 (trace s @ [Call (Some a) acc]))\<rparr>)"
  by (rule fetch_with_title [OF assms])
    (simp add: stub_url_def API_REQUEST_PAGEVIEWS_ENDPOINT_def)

lemma try_request_stub:
  "try_request stub_api u h tr0 =
     (case map_of stub_pages u of Some page \<Rightarrow> page | None \<Rightarrow> not_found,
      tr0 @ [Sleep API_THROTTLE_WAIT, Get u h])"
  by (simp add: try_request_def stub_api_def API_THROTTLE_WAIT_pos split: option.splits)



lemma fetch_stub:
  assumes "a \<noteq> []"
    and "template s ''project'' = Some ''en.wikipedia.org''" "template s ''agent'' = Some ''user''"
    "template s ''granularity'' = Some ''monthly''" "template s ''start'' = Some ''2015070100''"
    "template s ''end'' = Some ''2024093000''"
  shows "fetch stub_api (Some a) acc s =
     (Inr (case map_of stub_pages (stub_url acc (article_title_encoded a)) of
             Some page \<Rightarrow> page | None \<Rightarrow> not_found),
      s\<lparr>template := (template s)(''access'' \<mapsto> acc, ''article'' \<mapsto> article_title_encoded a),
        trace := trace s @ [Call (Some a) acc, Sleep API_THROTTLE_WAIT,
          Get (stub_url acc (article_title_encoded a)) REQUEST_HEADERS]\<rparr>)"
  unfolding fetch_default [OF assms] by (simp add: try_request_stub)

lemma fetch_stub_first:
  "a \<noteq> [] \<Longrightarrow> fst (fetch stub_api (Some a) acc initial_state) =
     Inr (case map_of stub_pages (stub_url acc (article_title_encoded a)) of
             Some page \<Rightarrow> page | None \<Rightarrow> not_found)"
  by (simp add: fetch_stub initial_keys)

lemma fetch_stub_second:
  "a \<noteq> [] \<Longrightarrow> fst (fetch stub_api (Some a) acc (snd (fetch world t acc' initial_state))) =
     Inr (case map_of stub_pages (stub_url acc (article_title_encoded a)) of
             Some page \<Rightarrow> page | None \<Rightarrow> not_found)"
  by (subst fetch_stub) (simp_all add: fetch_keeps_keys initial_keys)

lemma stub_page_desktop_Bison:
  "map_of stub_pages (stub_url ''desktop'' ''Bison'') =
     Some (JObj [(''items'', JArr bison_desktop)])"
  by (simp add: stub_pages_def stub_url_def)

lemma stub_page_lookup:
  "map_of stub_pages (stub_url ''mobile-web'' ''Bison'') = Some (JObj [(''items'', JArr bison_web)])"
  "map_of stub_pages (stub_url ''mobile-app'' ''Bison'') = Some (JObj [(''items'', JArr bison_app)])"
  "map_of stub_pages (stub_url ''mobile-web'' ''Northern_flicker'') =
     Some (JObj [(''items'', JArr flicker_web)])"
  "map_of stub_pages (stub_url ''mobile-app'' ''Northern_flicker'') =
     Some (JObj [(''items'', JArr flicker_app)])"
  by (simp_all add: stub_pages_def stub_url_def)

lemma encoded_Bison: "article_title_encoded ''Bison'' = ''Bison''"
  by (simp add: encode_defs)

lemma encoded_Northern_flicker: "article_title_encoded ''Northern flicker'' = ''Northern_flicker''"
  by (simp add: encode_defs)

section \<open>Properties of the request function\<close>

text \<open>
  Claim C1 says that the encoded path segment has each space of the title replaced by an
  underscore and each slash percent-encoded. The first half holds
  (\<open>article_title_encoded_no_space\<close>, \<open>article_title_encoded_underscore\<close>). The second
  does not (\<open>article_title_encoded_slash\<close>): for the title \<^verbatim>\<open>Sulfadoxine/pyrimethamine\<close>, one of the titles
  for which the notebook's recorded run found no data, the encoded segment still holds
  the slash, and the request URL has one path segment too many.
\<close>

theorem slash_in_title_is_not_encoded:
  "article_title_encoded ''Sulfadoxine/pyrimethamine'' = ''Sulfadoxine/pyrimethamine'' \<and>
   trace (snd (fetch world_down (Some ''Sulfadoxine/pyrimethamine'') ''desktop'' initial_state)) =
     [Call (Some ''Sulfadoxine/pyrimethamine'') ''desktop'',
      Sleep API_THROTTLE_WAIT,
      Get (''https://wikimedia.org/api/rest_v1/metrics/pageviews/per-article/'' @
           ''en.wikipedia.org/desktop/user/Sulfadoxine/pyrimethamine/monthly/'' @
           ''2015070100/2024093000'') REQUEST_HEADERS,
      Print ''Connection aborted.'']"
  by (simp add: request_defs encode_defs world_down_def initial_state_def)

text \<open>
  Claim C8. When the argument is \<^verbatim>\<open>None\<close> or the empty string and the template's
  article field is empty, the call raises the exception of line 160. The template is
  unchanged and the trace gains only the call itself: no sleep and no GET.
\<close>

theorem missing_title_raises:
  assumes "title = None \<or> title = Some []"
    and "T ''article'' = Some []"
  shows "request_pageviews_per_article world title acc url params T hdrs tr =
     (Inl (Exception ''Must supply an article title to make a pageviews request.''),
      T, tr @ [Call title acc])"
  using assms by (auto simp: request_pageviews_per_article_def)

text \<open>The first call of a fresh session, made without a title.\<close>

theorem missing_title_raises_witness:
  "ARTICLE_PAGEVIEWS_PARAMS_TEMPLATE ''article'' = Some [] \<and>
   request_pageviews_per_article world_down None ''desktop'' API_REQUEST_PAGEVIEWS_ENDPOINT
       API_REQUEST_PER_ARTICLE_PARAMS ARTICLE_PAGEVIEWS_PARAMS_TEMPLATE REQUEST_HEADERS [] =
     (Inl (Exception ''Must supply an article title to make a pageviews request.''),
      ARTICLE_PAGEVIEWS_PARAMS_TEMPLATE, [Call None ''desktop''])"
proof -
  have t: "(None :: string option) = None \<or> (None :: string option) = Some []"
    by simp
  have h: "ARTICLE_PAGEVIEWS_PARAMS_TEMPLATE ''article'' = Some []"
    by (simp add: ARTICLE_PAGEVIEWS_PARAMS_TEMPLATE_def)
  show ?thesis
    using t h missing_title_raises [where title = None
        and T = ARTICLE_PAGEVIEWS_PARAMS_TEMPLATE and world = world_down and acc = "''desktop''"
        and url = API_REQUEST_PAGEVIEWS_ENDPOINT and params = API_REQUEST_PER_ARTICLE_PARAMS
        and hdrs = REQUEST_HEADERS and tr = "[]"]
    by simp
qed



text \<open>
  Claim C7. A call that gets past the title check (it returns a value) sleeps exactly
  once, for \<open>API_THROTTLE_WAIT\<close> seconds, which is 1/100 minus the assumed latency of
  2 ms, that is 8 ms, a positive duration. The sleep comes first; unless the sleep itself
  raises, it is followed by one GET, sent with \<open>REQUEST_HEADERS\<close>, the fixed User-Agent.
\<close>

theorem throttle_before_get:
  assumes "fetch world title acc s = (Inr j, s')"
  shows "API_THROTTLE_WAIT = 1 / 100 - API_LATENCY_ASSUMED \<and> API_LATENCY_ASSUMED = 2 / 1000 \<and>
     API_THROTTLE_WAIT = 8 / 1000 \<and> 0 < API_THROTTLE_WAIT \<and>
     ((\<exists>msg. time_sleep world (trace s @ [Call title acc]) API_THROTTLE_WAIT = Some msg \<and>
         trace s' = trace s @ [Call title acc, Sleep API_THROTTLE_WAIT, Print msg]) \<or>
      (\<exists>u. time_sleep world (trace s @ [Call title acc]) API_THROTTLE_WAIT = None \<and>
         trace s' = trace s @ [Call title acc, Sleep API_THROTTLE_WAIT, Get u REQUEST_HEADERS]) \<or>
      (\<exists>u msg. time_sleep world (trace s @ [Call title acc]) API_THROTTLE_WAIT = None \<and>
         trace s' = trace s @
           [Call title acc, Sleep API_THROTTLE_WAIT, Get u REQUEST_HEADERS, Print msg]))"
proof -
  obtain T' tr' where req: "request_pageviews_per_article world title acc
      API_REQUEST_PAGEVIEWS_ENDPOINT API_REQUEST_PER_ARTICLE_PARAMS (template s) REQUEST_HEADERS
      (trace s) = (Inr j, T', tr')" and s': "s' = s\<lparr>template := T', trace := tr'\<rparr>"
    using assms by (auto simp: fetch_def split: prod.splits)
  from request_trace [OF req] obtain u where
    tr': "tr' = snd (try_request world u REQUEST_HEADERS (trace s @ [Call title acc]))" ..
  have "trace s' = tr'" by (simp add: s')
  with tr' try_request_trace [of world "trace s @ [Call title acc]" u REQUEST_HEADERS]
  show ?thesis
    by (auto simp: API_THROTTLE_WAIT_def API_LATENCY_ASSUMED_def)
qed

text \<open>The first request of a run against the stub.\<close>

theorem throttle_before_get_witness:
  "fetch stub_api (Some ''Bison'') ''desktop'' initial_state =
     (Inr (JObj [(''items'', JArr bison_desktop)]),
      initial_state\<lparr>template :=
          ARTICLE_PAGEVIEWS_PARAMS_TEMPLATE(''access'' \<mapsto> ''desktop'', ''article'' \<mapsto> ''Bison''),
        trace := [Call (Some ''Bison'') ''desktop'', Sleep API_THROTTLE_WAIT,
          Get (stub_url ''desktop'' ''Bison'') REQUEST_HEADERS]\<rparr>) \<and>
   API_THROTTLE_WAIT = 8 / 1000 \<and> 0 < API_THROTTLE_WAIT"
proof -
  have run: "fetch stub_api (Some ''Bison'') ''desktop'' initial_state =
     (Inr (JObj [(''items'', JArr bison_desktop)]),
      initial_state\<lparr>template :=
          ARTICLE_PAGEVIEWS_PARAMS_TEMPLATE(''access'' \<mapsto> ''desktop'', ''article'' \<mapsto> ''Bison''),
        trace := [Call (Some ''Bison'') ''desktop'', Sleep API_THROTTLE_WAIT,
          Get (stub_url ''desktop'' ''Bison'') REQUEST_HEADERS]\<rparr>)"
    by (simp add: fetch_default initial_state_def template_keys try_request_stub encoded_Bison
        stub_page_desktop_Bison)
  show ?thesis
    using run throttle_before_get [OF run] by simp
qed



section \<open>Properties of the loop body\<close>


lemma has_items_object:
  "map_of kvs ''items'' = Some v \<Longrightarrow> has_items (JObj kvs) = Inr True"
  by (auto simp: has_items_def dest: map_of_SomeD intro: rev_image_eqI)








text \<open>
  What the three parts do with responses whose items are monthly records.
\<close>

lemma month_record_fields:
  assumes "is_month_record m"
  shows "\<exists>ts v. py_getitem m ''timestamp'' = Inr (JStr ts) \<and> py_getitem m ''views'' = Inr (JInt v)"
  using assms
  by (cases m) (auto split: option.splits json.splits)

lemma month_record_getitem:
  assumes "is_month_record m"
  shows "py_getitem m ''timestamp'' = Inr (item_field m ''timestamp'')"
    and "py_getitem m ''views'' = Inr (item_field m ''views'')"
    and "item_field m ''views'' = JInt (int_field m ''views'')"
    and "\<exists>ts. item_field m ''timestamp'' = JStr ts"
  using month_record_fields [OF assms]
  by (auto simp: item_field_def int_field_def)



lemma mobile_month_data_ok:
  assumes "is_month_record w" and "is_month_record p"
  shows "mobile_month_data a w p =
     Inr (if same_month (w, p) then Some (merged_record_of a (w, p)) else None)"
proof -
  obtain tw vw where w: "py_getitem w ''timestamp'' = Inr (JStr tw)"
    "py_getitem w ''views'' = Inr (JInt vw)"
    using month_record_fields [OF assms(1)] by blast
  obtain tp vp where p: "py_getitem p ''timestamp'' = Inr (JStr tp)"
    "py_getitem p ''views'' = Inr (JInt vp)"
    using month_record_fields [OF assms(2)] by blast
  show ?thesis
    by (simp add: mobile_month_data_def w p item_field_def int_field_def)
qed

lemma merge_mobile_ok:
  "\<forall>(w, p)\<in>set zs. is_month_record w \<and> is_month_record p \<Longrightarrow>
     merge_mobile a zs out = (None, out @ map (merged_record_of a) (filter same_month zs))"
proof (induction zs arbitrary: out)
  case Nil
  then show ?case by simp
next
  case (Cons z zs)
  obtain w p where z: "z = (w, p)" by (cases z)
  with Cons.prems have "is_month_record w" "is_month_record p" by simp_all
  then have "mobile_month_data a w p =
     Inr (if same_month (w, p) then Some (merged_record_of a (w, p)) else None)"
    by (rule mobile_month_data_ok)
  moreover have "\<forall>(w, p)\<in>set zs. is_month_record w \<and> is_month_record p"
    using Cons.prems by simp
  ultimately show ?case
    using Cons.IH by (simp add: z)
qed



lemma mobile_items:
  assumes "fst (fetch world (Some a) ''mobile-web'' s) = Inr (JObj kw)"
    and "fst (fetch world (Some a) ''mobile-app'' (snd (fetch world (Some a) ''mobile-web'' s))) =
           Inr (JObj kp)"
    and "map_of kw ''items'' = Some (JArr ws)"
    and "map_of kp ''items'' = Some (JArr ps)"
    and "\<forall>m\<in>set ws. is_month_record m"
    and "\<forall>m\<in>set ps. is_month_record m"
  shows "mobile_part world a s =
     (None, (snd (fetch world (Some a) ''mobile-app'' (snd (fetch world (Some a) ''mobile-web'' s))))
        \<lparr>mobile_dict := mobile_dict s @
           map (merged_record_of a) (filter same_month (zip ws ps))\<rparr>)"
proof -
  obtain s1 where 1: "fetch world (Some a) ''mobile-web'' s = (Inr (JObj kw), s1)"
    using assms(1) by (cases "fetch world (Some a) ''mobile-web'' s") simp
  obtain s2 where 2: "fetch world (Some a) ''mobile-app'' s1 = (Inr (JObj kp), s2)"
    using assms(2) 1 by (cases "fetch world (Some a) ''mobile-app'' s1") simp
  have "mobile_dict s1 = mobile_dict s"
    using fetch_frame(2) [of world "Some a" "''mobile-web''" s] by (simp add: 1)
  moreover have "mobile_dict s2 = mobile_dict s1"
    using fetch_frame(2) [of world "Some a" "''mobile-app''" s1] by (simp add: 2)
  moreover have "\<forall>(w, p)\<in>set (zip ws ps). is_month_record w \<and> is_month_record p"
    using assms(5,6) by (auto dest: set_zip_leftD set_zip_rightD)
  ultimately show ?thesis
    by (simp add: mobile_part_def 1 2 has_items_object [OF assms(3)]
        has_items_object [OF assms(4)] assms(3,4) merge_mobile_ok)
qed



text \<open>
  Claim C2. When both mobile responses are dicts whose items are monthly records, every
  record the mobile part appends carries a timestamp that an item of each response has,
  and its views are the sum of the views of those two items. Hence a timestamp that only
  one of the two responses has is the timestamp of no appended record.
\<close>

theorem mobile_views_are_summed:
  assumes "fst (fetch world (Some a) ''mobile-web'' s) = Inr (JObj kw)"
    and "fst (fetch world (Some a) ''mobile-app'' (snd (fetch world (Some a) ''mobile-web'' s))) =
           Inr (JObj kp)"
    and "map_of kw ''items'' = Some (JArr ws)"
    and "map_of kp ''items'' = Some (JArr ps)"
    and "\<forall>m\<in>set ws. is_month_record m"
    and "\<forall>m\<in>set ps. is_month_record m"
  shows "fst (mobile_part world a s) = None \<and>
     (\<exists>new. mobile_dict (snd (mobile_part world a s)) = mobile_dict s @ new \<and>
        (\<forall>r\<in>set new. \<exists>w\<in>set ws. \<exists>p\<in>set ps.
            py_getitem w ''timestamp'' = Inr (timestamp r) \<and>
            py_getitem p ''timestamp'' = Inr (timestamp r) \<and>
            py_getitem w ''views'' = Inr (JInt (int_field w ''views'')) \<and>
            py_getitem p ''views'' = Inr (JInt (int_field p ''views'')) \<and>
            views r = JInt (int_field w ''views'' + int_field p ''views'') \<and>
            article_title r = a) \<and>
        (\<forall>t. (\<exists>w\<in>set ws. py_getitem w ''timestamp'' = Inr t) \<noteq>
                (\<exists>p\<in>set ps. py_getitem p ''timestamp'' = Inr t) \<longrightarrow>
             (\<forall>r\<in>set new. timestamp r \<noteq> t)))"
proof -
  let ?new = "map (merged_record_of a) (filter same_month (zip ws ps))"
  note part = mobile_items [OF assms]
  have each: "\<exists>w\<in>set ws. \<exists>p\<in>set ps.
            py_getitem w ''timestamp'' = Inr (timestamp r) \<and>
            py_getitem p ''timestamp'' = Inr (timestamp r) \<and>
            py_getitem w ''views'' = Inr (JInt (int_field w ''views'')) \<and>
            py_getitem p ''views'' = Inr (JInt (int_field p ''views'')) \<and>
            views r = JInt (int_field w ''views'' + int_field p ''views'') \<and>
            article_title r = a" if "r \<in> set ?new" for r
  proof -
    from that obtain w p where wp: "(w, p) \<in> set (zip ws ps)"
      "item_field w ''timestamp'' = item_field p ''timestamp''"
      "r = merged_record_of a (w, p)"
      by auto
    then have "w \<in> set ws" "p \<in> set ps"
      by (auto dest: set_zip_leftD set_zip_rightD)
    moreover from this have "is_month_record w" "is_month_record p"
      using assms(5,6) by simp_all
    ultimately show ?thesis
      using wp(2,3) month_record_getitem [of w] month_record_getitem [of p]
      by (intro bexI [of _ w] bexI [of _ p]) simp_all
  qed
  have only_one: "\<forall>r\<in>set ?new. timestamp r \<noteq> t"
    if "(\<exists>w\<in>set ws. py_getitem w ''timestamp'' = Inr t) \<noteq>
        (\<exists>p\<in>set ps. py_getitem p ''timestamp'' = Inr t)" for t
  proof
    fix r
    assume "r \<in> set ?new"
    from each [OF this] that show "timestamp r \<noteq> t"
      by blast
  qed
  show ?thesis
    unfolding part using each only_one by (intro conjI exI [of _ ?new]) simp_all
qed

text \<open>
  The mobile part for Northern flicker against the stub. August 2015 is a month of the
  mobile-web page only, and no appended record carries it.
\<close>

theorem mobile_views_are_summed_witness:
  "fst (fetch stub_api (Some ''Northern flicker'') ''mobile-web'' initial_state) =
     Inr (JObj [(''items'', JArr flicker_web)]) \<and>
   fst (fetch stub_api (Some ''Northern flicker'') ''mobile-app''
     (snd (fetch stub_api (Some ''Northern flicker'') ''mobile-web'' initial_state))) =
     Inr (JObj [(''items'', JArr flicker_app)]) \<and>
   list_all is_month_record flicker_web \<and>
   list_all is_month_record flicker_app \<and>
   fst (mobile_part stub_api ''Northern flicker'' initial_state) = None \<and>
   mobile_dict (snd (mobile_part stub_api ''Northern flicker'' initial_state)) =
     [\<lparr>article_title = ''Northern flicker'', timestamp = JStr ''2015070100'', views = JInt 8\<rparr>] \<and>
   (\<exists>w\<in>set flicker_web. py_getitem w ''timestamp'' = Inr (JStr ''2015080100'')) \<and>
   \<not> (\<exists>p\<in>set flicker_app. py_getitem p ''timestamp'' = Inr (JStr ''2015080100'')) \<and>
   JStr ''2015080100'' \<notin>
     timestamp ` set (mobile_dict (snd (mobile_part stub_api ''Northern flicker'' initial_state)))"
proof -
  have ne: "''Northern flicker'' \<noteq> []" by simp
  have 1: "fst (fetch stub_api (Some ''Northern flicker'') ''mobile-web'' initial_state) =
     Inr (JObj [(''items'', JArr flicker_web)])"
    by (simp add: fetch_stub_first encoded_Northern_flicker stub_page_lookup)
  have 2: "fst (fetch stub_api (Some ''Northern flicker'') ''mobile-app''
     (snd (fetch stub_api (Some ''Northern flicker'') ''mobile-web'' initial_state))) =
     Inr (JObj [(''items'', JArr flicker_app)])"
    by (simp add: fetch_stub_second encoded_Northern_flicker stub_page_lookup)
  have 3: "map_of [(''items'', JArr flicker_web)] ''items'' = Some (JArr flicker_web)"
    and 4: "map_of [(''items'', JArr flicker_app)] ''items'' = Some (JArr flicker_app)"
    by simp_all
  note 5 = fixtures_are_month_records(4) and 6 = fixtures_are_month_records(5)
  have all: "list_all is_month_record flicker_web" "list_all is_month_record flicker_app"
    using 5 6 by (simp_all add: list_all_iff)
  have only_web: "\<exists>w\<in>set flicker_web. py_getitem w ''timestamp'' = Inr (JStr ''2015080100'')"
    "\<not> (\<exists>p\<in>set flicker_app. py_getitem p ''timestamp'' = Inr (JStr ''2015080100''))"
    by (simp_all add: fixture_defs)
  have computed: "mobile_dict (snd (mobile_part stub_api ''Northern flicker'' initial_state)) =
     [\<lparr>article_title = ''Northern flicker'', timestamp = JStr ''2015070100'', views = JInt 8\<rparr>]"
    unfolding mobile_items [OF 1 2 3 4 5 6]
    by (simp add: initial_fields fixture_defs item_field_def int_field_def)
  from mobile_views_are_summed [OF 1 2 3 4 5 6] obtain new where
    none: "fst (mobile_part stub_api ''Northern flicker'' initial_state) = None"
    and new: "mobile_dict (snd (mobile_part stub_api ''Northern flicker'' initial_state)) =
      mobile_dict initial_state @ new"
    and only: "\<forall>t. (\<exists>w\<in>set flicker_web. py_getitem w ''timestamp'' = Inr t) \<noteq>
                (\<exists>p\<in>set flicker_app. py_getitem p ''timestamp'' = Inr t) \<longrightarrow>
             (\<forall>r\<in>set new. timestamp r \<noteq> t)"
    by blast
  from only only_web have "\<forall>r\<in>set new. timestamp r \<noteq> JStr ''2015080100''"
    by blast
  then have "JStr ''2015080100'' \<notin>
     timestamp ` set (mobile_dict (snd (mobile_part stub_api ''Northern flicker'' initial_state)))"
    unfolding new initial_fields by auto
  with 1 2 all none computed only_web show ?thesis
    by blast
qed

text \<open>
  Pairing by position: when the second list is the first with the entry at position
  \<open>k\<close> missing, the pairs that agree are exactly the first \<open>k\<close>.
\<close>

lemma gap_length:
  assumes "k < length ws"
    and "map f ps = take k (map f ws) @ drop (Suc k) (map f ws)"
  shows "length ps = length ws - 1"
proof -
  have "length (map f ps) = length (take k (map f ws) @ drop (Suc k) (map f ws))"
    by (simp only: assms(2))
  then show ?thesis
    using assms(1) by simp
qed

lemma gap_filter:
  assumes "k < length ws"
    and "distinct (map f ws)"
    and "map f ps = take k (map f ws) @ drop (Suc k) (map f ws)"
  shows "filter (\<lambda>(w, p). f w = f p) (zip ws ps) = take k (zip ws ps)"
proof -
  have len: "length ps = length ws - 1"
    using assms(1,3) by (rule gap_length)
  have nth_ps: "f (ps ! i) = (if i < k then f (ws ! i) else f (ws ! Suc i))"
    if "i < length ps" for i
  proof -
    have "f (ps ! i) = map f ps ! i"
      using that by simp
    also have "\<dots> = (take k (map f ws) @ drop (Suc k) (map f ws)) ! i"
      by (simp add: assms(3))
    also have "\<dots> = (if i < k then f (ws ! i) else f (ws ! Suc i))"
      using that assms(1) len by (auto simp: nth_append)
    finally show ?thesis .
  qed
  have before: "filter (\<lambda>(w, p). f w = f p) (take k (zip ws ps)) = take k (zip ws ps)"
  proof (rule filter_True, clarify)
    fix w p
    assume "(w, p) \<in> set (take k (zip ws ps))"
    then obtain i where i: "i < k" "i < length ws" "i < length ps" "w = ws ! i" "p = ps ! i"
      by (auto simp: in_set_conv_nth)
    then show "f w = f p"
      using nth_ps [of i] by simp
  qed
  have after: "filter (\<lambda>(w, p). f w = f p) (drop k (zip ws ps)) = []"
  proof (rule filter_False, clarify)
    fix w p
    assume "(w, p) \<in> set (drop k (zip ws ps))" and eq: "f w = f p"
    then have "(w, p) \<in> set (zip (drop k ws) (drop k ps))"
      by (simp add: drop_zip)
    then obtain j where "j < length (drop k ws)" "j < length (drop k ps)"
      "w = drop k ws ! j" "p = drop k ps ! j"
      by (auto simp: in_set_zip)
    then have j: "k + j < length ws" "k + j < length ps"
      "w = ws ! (k + j)" "p = ps ! (k + j)"
      by simp_all
    then have "f p = f (ws ! Suc (k + j))"
      using nth_ps [of "k + j"] by simp
    with eq j have "map f ws ! (k + j) = map f ws ! Suc (k + j)"
      using len by simp
    moreover have "k + j < length (map f ws)" "Suc (k + j) < length (map f ws)"
      using j len by simp_all
    ultimately have "k + j = Suc (k + j)"
      using assms(2) nth_eq_iff_index_eq by blast
    then show False by simp
  qed
  have "filter (\<lambda>(w, p). f w = f p) (zip ws ps) =
      filter (\<lambda>(w, p). f w = f p) (take k (zip ws ps) @ drop k (zip ws ps))"
    by simp
  also have "\<dots> = take k (zip ws ps)"
    unfolding filter_append before after by simp
  finally show ?thesis .
qed

text \<open>
  Claim C10. Under the same conditions the mobile part appends at most as many records as
  the shorter item list has items, and the timestamp of every appended record stands at
  one and the same position in both lists. In particular, when the mobile-web months are
  distinct and the mobile-app list is the same sequence of months with the one at
  position \<open>k\<close> missing, the appended records are exactly those of the first \<open>k\<close> months:
  every month after the gap is dropped, although both responses have it.
\<close>

theorem mobile_merge_is_positional:
  assumes "fst (fetch world (Some a) ''mobile-web'' s) = Inr (JObj kw)"
    and "fst (fetch world (Some a) ''mobile-app'' (snd (fetch world (Some a) ''mobile-web'' s))) =
           Inr (JObj kp)"
    and "map_of kw ''items'' = Some (JArr ws)"
    and "map_of kp ''items'' = Some (JArr ps)"
    and "\<forall>m\<in>set ws. is_month_record m"
    and "\<forall>m\<in>set ps. is_month_record m"
  shows "\<exists>new. mobile_dict (snd (mobile_part world a s)) = mobile_dict s @ new \<and>
     length new \<le> min (length ws) (length ps) \<and>
     (\<forall>r\<in>set new. \<exists>i. i < length ws \<and> i < length ps \<and>
         py_getitem (ws ! i) ''timestamp'' = Inr (timestamp r) \<and>
         py_getitem (ps ! i) ''timestamp'' = Inr (timestamp r)) \<and>
     (\<forall>k. k < length ws \<and>
          distinct (map (\<lambda>m. item_field m ''timestamp'') ws) \<and>
          map (\<lambda>m. item_field m ''timestamp'') ps =
            take k (map (\<lambda>m. item_field m ''timestamp'') ws) @
            drop (Suc k) (map (\<lambda>m. item_field m ''timestamp'') ws) \<longrightarrow>
          map timestamp new = take k (map (\<lambda>m. item_field m ''timestamp'') ws))"
proof -
  let ?new = "map (merged_record_of a) (filter same_month (zip ws ps))"
  note part = mobile_items [OF assms]
  have short: "length ?new \<le> min (length ws) (length ps)"
    using length_filter_le [of same_month "zip ws ps"] by simp
  have position: "\<exists>i. i < length ws \<and> i < length ps \<and>
         py_getitem (ws ! i) ''timestamp'' = Inr (timestamp r) \<and>
         py_getitem (ps ! i) ''timestamp'' = Inr (timestamp r)" if "r \<in> set ?new" for r
  proof -
    from that obtain w p where wp: "(w, p) \<in> set (zip ws ps)"
      "item_field w ''timestamp'' = item_field p ''timestamp''"
      "r = merged_record_of a (w, p)"
      by auto
    from wp(1) obtain i where i: "i < length ws" "i < length ps" "w = ws ! i" "p = ps ! i"
      by (auto simp: in_set_conv_nth)
    then have "is_month_record (ws ! i)" "is_month_record (ps ! i)"
      using assms(5,6) by simp_all
    then show ?thesis
      using i wp(2,3) month_record_getitem(1) [of "ws ! i"] month_record_getitem(1) [of "ps ! i"]
      by (intro exI [of _ i]) simp
  qed
  have gap: "map timestamp ?new = take k (map (\<lambda>m. item_field m ''timestamp'') ws)"
    if "k < length ws \<and>
          distinct (map (\<lambda>m. item_field m ''timestamp'') ws) \<and>
          map (\<lambda>m. item_field m ''timestamp'') ps =
            take k (map (\<lambda>m. item_field m ''timestamp'') ws) @
            drop (Suc k) (map (\<lambda>m. item_field m ''timestamp'') ws)" for k
  proof -
    from that have k: "k < length ws"
      and f: "filter same_month (zip ws ps) = take k (zip ws ps)"
      using gap_filter [of k ws "\<lambda>m. item_field m ''timestamp''" ps] by simp_all
    have "length ps = length ws - 1"
      using that gap_length [of k ws "\<lambda>m. item_field m ''timestamp''" ps] by simp
    with k have "k \<le> length ps" by simp
    have lens: "length (take k ws) = length (take k ps)"
      using k \<open>k \<le> length ps\<close> by simp
    have "map timestamp ?new =
        map (\<lambda>z. item_field (fst z) ''timestamp'') (zip (take k ws) (take k ps))"
      unfolding f by (simp add: take_zip case_prod_beta)
    also have "\<dots> = map (\<lambda>m. item_field m ''timestamp'') (map fst (zip (take k ws) (take k ps)))"
      by (simp add: o_def)
    also have "\<dots> = map (\<lambda>m. item_field m ''timestamp'') (take k ws)"
      using lens by (simp only: map_fst_zip)
    also have "\<dots> = take k (map (\<lambda>m. item_field m ''timestamp'') ws)"
      by (simp add: take_map)
    finally show ?thesis .
  qed
  show ?thesis
    unfolding part using short position gap
    by (intro exI [of _ ?new]) simp
qed

text \<open>
  The same run, read by position: the gap is at position 1, so only the record of
  position 0 is appended; September and October, which both pages have, are dropped.
\<close>

theorem mobile_merge_is_positional_witness:
  "fst (fetch stub_api (Some ''Northern flicker'') ''mobile-web'' initial_state) =
     Inr (JObj [(''items'', JArr flicker_web)]) \<and>
   fst (fetch stub_api (Some ''Northern flicker'') ''mobile-app''
     (snd (fetch stub_api (Some ''Northern flicker'') ''mobile-web'' initial_state))) =
     Inr (JObj [(''items'', JArr flicker_app)]) \<and>
   list_all is_month_record flicker_web \<and>
   list_all is_month_record flicker_app \<and>
   (1 :: nat) < length flicker_web \<and>
   distinct (map (\<lambda>m. item_field m ''timestamp'') flicker_web) \<and>
   map (\<lambda>m. item_field m ''timestamp'') flicker_web =
     [JStr ''2015070100'', JStr ''2015080100'', JStr ''2015090100'', JStr ''2015100100''] \<and>
   map (\<lambda>m. item_field m ''timestamp'') flicker_app =
     [JStr ''2015070100'', JStr ''2015090100'', JStr ''2015100100''] \<and>
   map timestamp (mobile_dict (snd (mobile_part stub_api ''Northern flicker'' initial_state))) =
     [JStr ''2015070100''] \<and>
   length (mobile_dict (snd (mobile_part stub_api ''Northern flicker'' initial_state))) \<le>
     min (length flicker_web) (length flicker_app)"
proof -
  have 1: "fst (fetch stub_api (Some ''Northern flicker'') ''mobile-web'' initial_state) =
     Inr (JObj [(''items'', JArr flicker_web)])"
    by (simp add: fetch_stub_first encoded_Northern_flicker stub_page_lookup)
  have 2: "fst (fetch stub_api (Some ''Northern flicker'') ''mobile-app''
     (snd (fetch stub_api (Some ''Northern flicker'') ''mobile-web'' initial_state))) =
     Inr (JObj [(''items'', JArr flicker_app)])"
    by (simp add: fetch_stub_second encoded_Northern_flicker stub_page_lookup)
  have 3: "map_of [(''items'', JArr flicker_web)] ''items'' = Some (JArr flicker_web)"
    and 4: "map_of [(''items'', JArr flicker_app)] ''items'' = Some (JArr flicker_app)"
    by simp_all
  note 5 = fixtures_are_month_records(4) and 6 = fixtures_are_month_records(5)
  have all: "list_all is_month_record flicker_web" "list_all is_month_record flicker_app"
    using 5 6 by (simp_all add: list_all_iff)
  have web: "map (\<lambda>m. item_field m ''timestamp'') flicker_web =
     [JStr ''2015070100'', JStr ''2015080100'', JStr ''2015090100'', JStr ''2015100100'']"
    and app: "map (\<lambda>m. item_field m ''timestamp'') flicker_app =
     [JStr ''2015070100'', JStr ''2015090100'', JStr ''2015100100'']"
    and len: "length flicker_web = 4" "length flicker_app = 3"
    by (simp_all add: fixture_defs item_field_def)
  have gap: "(1 :: nat) < length flicker_web \<and>
     distinct (map (\<lambda>m. item_field m ''timestamp'') flicker_web) \<and>
     map (\<lambda>m. item_field m ''timestamp'') flicker_app =
       take 1 (map (\<lambda>m. item_field m ''timestamp'') flicker_web) @
       drop (Suc 1) (map (\<lambda>m. item_field m ''timestamp'') flicker_web)"
    unfolding web app len by simp
  from mobile_merge_is_positional [OF 1 2 3 4 5 6] obtain new where
    new: "mobile_dict (snd (mobile_part stub_api ''Northern flicker'' initial_state)) =
      mobile_dict initial_state @ new"
    and short: "length new \<le> min (length flicker_web) (length flicker_app)"
    and rule: "\<forall>k. k < length flicker_web \<and>
          distinct (map (\<lambda>m. item_field m ''timestamp'') flicker_web) \<and>
          map (\<lambda>m. item_field m ''timestamp'') flicker_app =
            take k (map (\<lambda>m. item_field m ''timestamp'') flicker_web) @
            drop (Suc k) (map (\<lambda>m. item_field m ''timestamp'') flicker_web) \<longrightarrow>
          map timestamp new = take k (map (\<lambda>m. item_field m ''timestamp'') flicker_web)"
    by blast
  from rule gap have "map timestamp new =
      take 1 (map (\<lambda>m. item_field m ''timestamp'') flicker_web)"
    by blast
  then have "map timestamp new = [JStr ''2015070100'']"
    unfolding web by simp
  with 1 2 all gap web app short show ?thesis
    unfolding new initial_fields by simp
qed

section \<open>Properties of the loop\<close>






















end
